theory Spec2Isabelle
  imports Main "HOL-Library.Word" "HOL-Library.AList"
begin

section \<open>Data model of package rawapi (server.go)\<close>

text \<open>
  Request and response payloads are Go byte slices and a protocol identifier is a Go
  string. Modelled from the spec: \<open>types.ShardId\<close>, whose declaration is not part of
  server.go, is the shard's numeric identifier, here an unsigned 32-bit integer; the verb
  \<open>%d\<close> renders it in decimal.
\<close>

type_synonym bytes = "8 word list"
type_synonym ProtocolID = string
type_synonym ShardId = "32 word"

text \<open>
  Go error values. \<open>New\<close> is \<open>errors.New\<close>; \<open>Errorf_ww a b\<close> is
  \<open>fmt.Errorf("%w: %w", a, b)\<close>, which wraps both operands.
\<close>

datatype error = New string | Errorf_ww error error

definition errRequestHandlerCreation :: error where
  "errRequestHandlerCreation = New ''failed to create request handler''"

text \<open>
  A Go call either panics or returns. The panics that server.go can raise itself:
  \<open>reflect.Value.Type\<close> on the zero Value (a nil \<open>api\<close>), the two
  \<open>check.PanicIfNotf\<close> guards (the helper panics when its condition is false), and
  \<open>reflect.Value.Call\<close> on the zero Value. A bound API method may panic with a value of
  its own (\<open>MethodPanic\<close>).
\<close>

datatype panic_value =
    ZeroValueType
  | ApiDoesNotImplement
  | CodecNotFound string
  | ZeroValueCall
  | MethodPanic string

datatype 'a outcome = Panics panic_value | Returns 'a

text \<open>
  \<open>reflect.Method\<close>: the name, the package path (empty exactly for an exported method)
  and the signature. A \<open>reflect.Type\<close> is used by server.go through its method set only.
\<close>

record Method =
  Name :: string
  PkgPath :: string
  Type :: string

type_synonym reflect_Type = "Method list"

text \<open>
  \<open>reflect.Value\<close>: either the execution context (\<open>reflect.ValueOf(ctx)\<close>) or a native
  argument or result value.
\<close>

datatype ('c, 'v) Value = ValueOf_ctx 'c | ValueOf 'v

text \<open>
  A bound method value, as \<open>reflect.Value.Call\<close> sees it: from the argument list to the
  result list, or a panic.
\<close>

type_synonym ('c, 'v) bound_method = "('c, 'v) Value list \<Rightarrow> ('c, 'v) Value list outcome"

text \<open>
  An \<open>api any\<close> value: nil, or a dynamic value whose type has a method set, each method
  with its implementation.
\<close>

type_synonym ('c, 'v) any = "(Method \<times> ('c, 'v) bound_method) list option"

text \<open>
  \<open>methodCodec\<close>. Its declaration is not part of server.go; the three operations are
  parameters, with the signatures that their call sites in \<open>makeRequestHandler\<close> fix.
\<close>

record ('c, 'v) methodCodec =
  unpackRequest :: "bytes \<Rightarrow> error + ('c, 'v) Value list"
  packError :: "error \<Rightarrow> bytes"
  packResponse :: "('c, 'v) Value list \<Rightarrow> bytes \<times> error option"

type_synonym ('c, 'v) apiCodec = "string \<rightharpoonup> ('c, 'v) methodCodec"

text \<open>
  \<open>network.RequestHandler\<close>: \<open>func(ctx, request []byte) ([]byte, error)\<close>.
\<close>

type_synonym ('c, 'v) RequestHandler = "'c \<Rightarrow> bytes \<Rightarrow> (bytes \<times> error option) outcome"

text \<open>
  The Go map \<open>map[network.ProtocolID]network.RequestHandler\<close>, as an association list
  with one entry per key; an assignment \<open>m[k] = v\<close> is \<^const>\<open>AList.update\<close>.
\<close>

type_synonym ('c, 'v) handler_map = "(ProtocolID \<times> ('c, 'v) RequestHandler) list"

text \<open>
  The handler table of \<open>network.Manager\<close> and the log of \<open>zerolog.Logger\<close>
  (error-level entries: the attached error and the message).
\<close>

type_synonym ('c, 'v) Manager = "ProtocolID \<rightharpoonup> ('c, 'v) RequestHandler"
type_synonym Logger = "(error \<times> string) list"

section \<open>The interfaces declared in server.go\<close>

definition pbMethod :: "string \<Rightarrow> string \<Rightarrow> Method" where
  "pbMethod n t = \<lparr>Name = n, PkgPath = [], Type = t\<rparr>"

definition NetworkTransportProtocolRo :: reflect_Type where
  "NetworkTransportProtocolRo =
    [pbMethod ''GetBlockHeader'' ''func(pb.BlockRequest) pb.RawBlockResponse'',
     pbMethod ''GetFullBlockData'' ''func(pb.BlockRequest) pb.RawFullBlockResponse'',
     pbMethod ''GetBlockTransactionCount'' ''func(pb.BlockRequest) pb.Uint64Response'',
     pbMethod ''GetInTransaction'' ''func(pb.TransactionRequest) pb.TransactionResponse'',
     pbMethod ''GetInTransactionReceipt'' ''func(pb.Hash) pb.ReceiptResponse'',
     pbMethod ''GetBalance'' ''func(pb.AccountRequest) pb.BalanceResponse'',
     pbMethod ''GetCode'' ''func(pb.AccountRequest) pb.CodeResponse'',
     pbMethod ''GetTokens'' ''func(pb.AccountRequest) pb.TokensResponse'',
     pbMethod ''GetTransactionCount'' ''func(pb.AccountRequest) pb.Uint64Response'',
     pbMethod ''GetContract'' ''func(pb.AccountRequest) pb.RawContractResponse'',
     pbMethod ''Call'' ''func(pb.CallRequest) pb.CallResponse'',
     pbMethod ''GasPrice'' ''func() pb.GasPriceResponse'',
     pbMethod ''GetShardIdList'' ''func() pb.ShardIdListResponse'',
     pbMethod ''GetNumShards'' ''func() pb.Uint64Response'']"

definition NetworkTransportProtocol :: reflect_Type where
  "NetworkTransportProtocol =
    NetworkTransportProtocolRo @
    [pbMethod ''SendTransaction'' ''func(pb.SendTransactionRequest) pb.SendTransactionResponse'']"

section \<open>Helpers that server.go calls\<close>

text \<open>
  Modelled from the spec: \<open>iterMethods\<close>, \<open>isExportedMethod\<close> and \<open>common.Filter\<close>, which
  are not part of server.go. Only the exported methods of the API type take part in the
  registration: \<open>iterMethods\<close> enumerates the methods of a type, \<open>common.Filter\<close> keeps
  those that satisfy a predicate, and \<open>isExportedMethod\<close> holds of the exported ones, whose
  package path is empty in \<open>reflect.Method\<close>.
\<close>

definition iterMethods :: "reflect_Type \<Rightarrow> Method list" where
  "iterMethods t = t"

definition isExportedMethod :: "Method \<Rightarrow> bool" where
  "isExportedMethod m = (PkgPath m = [])"

definition Filter :: "'a list \<Rightarrow> ('a \<Rightarrow> bool) \<Rightarrow> 'a list" where
  "Filter xs p = filter p xs"

text \<open>
  \<open>reflect.Type.Implements\<close>: every method of the interface type is in the method set,
  with the same name, package and signature.
\<close>

definition Implements :: "reflect_Type \<Rightarrow> reflect_Type \<Rightarrow> bool" where
  "Implements t u = (set u \<subseteq> set t)"

text \<open>
  \<open>reflect.Value.MethodByName\<close>: the bound exported method of that name, or the zero
  Value (\<open>None\<close>) when there is none. \<open>reflect.Value.Call\<close> panics on the zero Value.
\<close>

definition MethodByName ::
  "(Method \<times> ('c, 'v) bound_method) list \<Rightarrow> string \<Rightarrow> ('c, 'v) bound_method option" where
  "MethodByName ms n =
     map_option snd (find (\<lambda>mf. Name (fst mf) = n \<and> isExportedMethod (fst mf)) ms)"

definition Call ::
  "('c, 'v) bound_method option \<Rightarrow> ('c, 'v) Value list \<Rightarrow> ('c, 'v) Value list outcome" where
  "Call f args = (case f of None \<Rightarrow> Panics ZeroValueCall | Some g \<Rightarrow> g args)"

text \<open>
  The verb \<open>%d\<close> of \<open>fmt.Sprintf\<close> on an unsigned integer: its decimal digits, most
  significant first, no leading zero.
\<close>

definition digit :: "nat \<Rightarrow> char" where
  "digit d = ''0123456789'' ! d"

fun decimal :: "nat \<Rightarrow> string" where
  "decimal n = (if n < 10 then [digit n] else decimal (n div 10) @ [digit (n mod 10)])"

declare decimal.simps [simp del]

text \<open>
  Reading a decimal numeral back: the value of a digit string, most significant digit
  first.
\<close>

definition decimal_value :: "string \<Rightarrow> nat" where
  "decimal_value cs = foldl (\<lambda>v c. 10 * v + (of_char c - 48)) 0 cs"

text \<open>
  \<open>network.ProtocolID(fmt.Sprintf("/shard/%d/%s/%s", shardId, apiName, methodName))\<close>.
\<close>

definition protocolID :: "ShardId \<Rightarrow> string \<Rightarrow> string \<Rightarrow> ProtocolID" where
  "protocolID shardId apiName methodName =
     ''/shard/'' @ decimal (unat shardId) @ ''/'' @ apiName @ ''/'' @ methodName"

text \<open>
  Modelled from the spec: \<open>network.Manager.SetRequestHandler\<close>, which is not part of
  server.go. The transport's handler table is a plain overwrite-on-insert table:
  registering under an identifier replaces the handler installed there before.
\<close>

definition SetRequestHandler ::
  "'c \<Rightarrow> ProtocolID \<Rightarrow> ('c, 'v) RequestHandler \<Rightarrow> ('c, 'v) Manager \<Rightarrow> ('c, 'v) Manager" where
  "SetRequestHandler ctx name handler manager = manager(name \<mapsto> handler)"

section \<open>The functions of server.go\<close>

definition makeRequestHandler ::
  "('c, 'v) bound_method option \<Rightarrow> ('c, 'v) methodCodec \<Rightarrow> ('c, 'v) RequestHandler" where
  "makeRequestHandler apiMethod codec = (\<lambda>ctx request.
     case unpackRequest codec request of
       Inl err \<Rightarrow> Returns (packError codec err, None)
     | Inr unpackedArguments \<Rightarrow>
         (let apiArguments = [ValueOf_ctx ctx];
              apiArguments = apiArguments @ unpackedArguments
          in case Call apiMethod apiArguments of
               Panics p \<Rightarrow> Panics p
             | Returns apiCallResults \<Rightarrow> Returns (packResponse codec apiCallResults)))"

text \<open>
  The loop of \<open>getRawApiRequestHandlers\<close> over the exported methods of \<open>apiType\<close>.
\<close>

fun handlersLoop ::
  "('c, 'v) apiCodec \<Rightarrow> (Method \<times> ('c, 'v) bound_method) list \<Rightarrow> ShardId \<Rightarrow> string \<Rightarrow>
   Method list \<Rightarrow> ('c, 'v) handler_map \<Rightarrow> ('c, 'v) handler_map outcome" where
  "handlersLoop codec apiValue shardId apiName [] requestHandlers = Returns requestHandlers"
| "handlersLoop codec apiValue shardId apiName (method # methods) requestHandlers =
     (let methodName = Name method in
      case codec methodName of
        None \<Rightarrow> Panics (CodecNotFound methodName)
      | Some methodCodec \<Rightarrow>
          (let protocol = protocolID shardId apiName methodName in
           handlersLoop codec apiValue shardId apiName methods
             (AList.update protocol
                (makeRequestHandler (MethodByName apiValue methodName) methodCodec)
                requestHandlers)))"

text \<open>
  \<open>getRawApiRequestHandlers\<close>. \<open>newApiCodec\<close> is not part of server.go and is a
  parameter: from the API type and the protocol type to an error or a codec table.
\<close>

definition getRawApiRequestHandlers ::
  "(reflect_Type \<Rightarrow> reflect_Type \<Rightarrow> error + ('c, 'v) apiCodec) \<Rightarrow>
   reflect_Type \<Rightarrow> reflect_Type \<Rightarrow> ('c, 'v) any \<Rightarrow> ShardId \<Rightarrow> string \<Rightarrow>
   (error + ('c, 'v) handler_map) outcome" where
  "getRawApiRequestHandlers newApiCodec protocolInterfaceType apiType api shardId apiName =
     (case api of
        None \<Rightarrow> Panics ZeroValueType
      | Some apiValue \<Rightarrow>
          if \<not> Implements (map fst apiValue) apiType then Panics ApiDoesNotImplement
          else
            (case newApiCodec apiType protocolInterfaceType of
               Inl err \<Rightarrow> Returns (Inl (Errorf_ww errRequestHandlerCreation err))
             | Inr codec \<Rightarrow>
                 (case handlersLoop codec apiValue shardId apiName
                         (Filter (iterMethods apiType) isExportedMethod) [] of
                    Panics p \<Rightarrow> Panics p
                  | Returns requestHandlers \<Rightarrow> Returns (Inr requestHandlers))))"

text \<open>
  \<open>setRawApiRequestHandlers\<close>: the state is the transport's handler table and the log.
\<close>

definition setRawApiRequestHandlers ::
  "(reflect_Type \<Rightarrow> reflect_Type \<Rightarrow> error + ('c, 'v) apiCodec) \<Rightarrow>
   'c \<Rightarrow> reflect_Type \<Rightarrow> reflect_Type \<Rightarrow> ('c, 'v) any \<Rightarrow> ShardId \<Rightarrow> string \<Rightarrow>
   ('c, 'v) Manager \<Rightarrow> Logger \<Rightarrow> error option outcome \<times> ('c, 'v) Manager \<times> Logger" where
  "setRawApiRequestHandlers newApiCodec ctx protocolInterfaceType apiType api shardId apiName
       manager logger =
     (case getRawApiRequestHandlers newApiCodec protocolInterfaceType apiType api shardId apiName of
        Panics p \<Rightarrow> (Panics p, manager, logger)
      | Returns (Inl err) \<Rightarrow>
          (Returns (Some err), manager, logger @ [(err, ''Failed to create request handlers'')])
      | Returns (Inr requestHandlers) \<Rightarrow>
          (Returns None,
           fold (\<lambda>(name, handler). SetRequestHandler ctx name handler) requestHandlers manager,
           logger))"

text \<open>
  \<open>SetRawApiRequestHandlers\<close>. The declarations of \<open>ShardApiRo\<close> and \<open>ShardApi\<close> are
  not part of server.go; the two types are parameters.
\<close>

definition SetRawApiRequestHandlers ::
  "(reflect_Type \<Rightarrow> reflect_Type \<Rightarrow> error + ('c, 'v) apiCodec) \<Rightarrow>
   reflect_Type \<Rightarrow> reflect_Type \<Rightarrow>
   'c \<Rightarrow> ShardId \<Rightarrow> ('c, 'v) any \<Rightarrow> ('c, 'v) Manager \<Rightarrow> bool \<Rightarrow> Logger \<Rightarrow>
   error option outcome \<times> ('c, 'v) Manager \<times> Logger" where
  "SetRawApiRequestHandlers newApiCodec ShardApiRo ShardApi ctx shardId api manager readonly logger =
     (let (protocolInterfaceType, apiType) =
            (if readonly then (NetworkTransportProtocolRo, ShardApiRo)
             else (NetworkTransportProtocol, ShardApi))
      in setRawApiRequestHandlers newApiCodec ctx protocolInterfaceType apiType api shardId
           ''rawapi'' manager logger)"

text \<open>
  Modelled from the spec: the declarations of \<open>ShardApiRo\<close> and \<open>ShardApi\<close> are not part
  of server.go. The Protocol Mirror Model has one mirror method per API method, matched by
  name: the exported methods of the API type and the methods of the protocol type carry the
  same names.
\<close>

definition mirrors :: "reflect_Type \<Rightarrow> reflect_Type \<Rightarrow> bool" where
  "mirrors apiType protocolInterfaceType =
     (Name ` set (Filter (iterMethods apiType) isExportedMethod) =
      Name ` set protocolInterfaceType)"

section \<open>An example wiring\<close>

text \<open>
  Shard 3, api name \<open>rawapi\<close>; contexts are numbered, native values are bytes. The
  read-only API type exposes \<open>GetBalance\<close> and has the unexported \<open>setNodeApi\<close>; the full
  API type adds \<open>SendTransaction\<close>. The codec takes a one-byte request; it cannot pack the
  result \<open>[0]\<close>.
\<close>

definition exGetBalance :: Method where
  "exGetBalance = \<lparr>Name = ''GetBalance'', PkgPath = [],
     Type = ''func(context.Context, types.Address) (types.Value, error)''\<rparr>"

definition exSetNodeApi :: Method where
  "exSetNodeApi = \<lparr>Name = ''setNodeApi'', PkgPath = ''rawapi'',
     Type = ''func(rawapi.NodeApi)''\<rparr>"

definition exSendTransaction :: Method where
  "exSendTransaction = \<lparr>Name = ''SendTransaction'', PkgPath = [],
     Type = ''func(context.Context, []uint8) (bool, error)''\<rparr>"

definition exShardApiRo :: reflect_Type where
  "exShardApiRo = [exGetBalance, exSetNodeApi]"

definition exShardApi :: reflect_Type where
  "exShardApi = exShardApiRo @ [exSendTransaction]"

definition exCodec :: "(nat, 8 word) methodCodec" where
  "exCodec =
     \<lparr>unpackRequest = (\<lambda>request. if length request = 1 then Inr [ValueOf (hd request)]
                                 else Inl (New ''malformed request'')),
      packError = (\<lambda>err. [255]),
      packResponse = (\<lambda>results. if results = [ValueOf 0] then ([], Some (New ''cannot pack''))
                                  else (map (\<lambda>r. case r of ValueOf b \<Rightarrow> b | _ \<Rightarrow> 0) results, None))\<rparr>"

definition exNewApiCodec ::
  "reflect_Type \<Rightarrow> reflect_Type \<Rightarrow> error + (nat, 8 word) apiCodec" where
  "exNewApiCodec apiType protocolInterfaceType =
     (if list_all (\<lambda>m. Name m \<in> set (map Name protocolInterfaceType))
           (filter isExportedMethod apiType)
      then Inr (\<lambda>n. if n \<in> set (map Name (filter isExportedMethod apiType))
                     then Some exCodec else None)
      else Inl (New ''method not found''))"

definition exMethod :: "(nat, 8 word) bound_method" where
  "exMethod args =
     (case args of
        [ValueOf_ctx c, ValueOf b] \<Rightarrow> Returns [ValueOf (b + 1)]
      | _ \<Rightarrow> Panics (MethodPanic ''bad arguments''))"

definition exApi :: "(nat, 8 word) any" where
  "exApi = Some (map (\<lambda>m. (m, exMethod)) exShardApi)"

definition exManager :: "(nat, 8 word) Manager" where
  "exManager = [''/shard/3/rawapi/GetBalance'' \<mapsto> makeRequestHandler (Some exMethod) exCodec]"

text \<open>
  A second wiring of the same API type, with another implementation and another codec
  table, and a codec builder whose table is empty.
\<close>

definition exNewApiCodec2 ::
  "reflect_Type \<Rightarrow> reflect_Type \<Rightarrow> error + (nat, 8 word) apiCodec" where
  "exNewApiCodec2 apiType protocolInterfaceType =
     Inr (\<lambda>n. Some (exCodec\<lparr>packError := (\<lambda>err. [])\<rparr>))"

definition exApi2 :: "(nat, 8 word) any" where
  "exApi2 = Some [(exGetBalance, \<lambda>args. Returns []), (exSetNodeApi, \<lambda>args. Returns [])]"

definition exNoCodec ::
  "reflect_Type \<Rightarrow> reflect_Type \<Rightarrow> error + (nat, 8 word) apiCodec" where
  "exNoCodec apiType protocolInterfaceType = Inr Map.empty"

text \<open>
  A wiring whose API types mirror the protocol types of server.go: the read-only API type
  has the methods of \<open>NetworkTransportProtocolRo\<close>, with native signatures, and the
  unexported \<open>setNodeApi\<close>; the full API type adds \<open>SendTransaction\<close>.
\<close>

definition nodeShardApiRo :: reflect_Type where
  "nodeShardApiRo =
     map (\<lambda>m. m\<lparr>Type := ''func(context.Context, ...) (..., error)''\<rparr>) NetworkTransportProtocolRo @
     [exSetNodeApi]"

definition nodeShardApi :: reflect_Type where
  "nodeShardApi = nodeShardApiRo @ [exSendTransaction]"

definition nodeApi :: "(nat, 8 word) any" where
  "nodeApi = Some (map (\<lambda>m. (m, exMethod)) nodeShardApi)"

section \<open>Protocol identifiers\<close>

text \<open>
  \<open>decimal\<close> is the decimal numeral of its argument: digits only, and read back it gives
  the number.
\<close>

lemma digit_value:
  assumes "d < 10"
  shows "of_char (digit d) = 48 + d"
proof -
  from assms have "d \<in> {0, 1, 2, 3, 4, 5, 6, 7, 8, 9}" by auto
  then show ?thesis
    by (auto simp: digit_def)
qed

lemma decimal_value_decimal: "decimal_value (decimal n) = n"
proof (induction n rule: decimal.induct)
  case (1 n)
  show ?case
  proof (cases "n < 10")
    case True
    then show ?thesis
      by (simp add: decimal.simps [of n] decimal_value_def digit_value)
  next
    case False
    have "n mod 10 < 10" by simp
    then have d: "of_char (digit (n mod 10)) = 48 + n mod 10"
      by (rule digit_value)
    from False 1 have "decimal_value (decimal (n div 10)) = n div 10" by simp
    with False d show ?thesis
      by (simp add: decimal.simps [of n] decimal_value_def)
  qed
qed

lemma decimal_digits: "set (decimal n) \<subseteq> set ''0123456789''"
proof (induction n rule: decimal.induct)
  case (1 n)
  have m: "digit d \<in> set ''0123456789''" if "d < 10" for d
    unfolding digit_def using that by (intro nth_mem) simp
  show ?case
  proof (cases "n < 10")
    case True
    with m show ?thesis by (simp add: decimal.simps [of n])
  next
    case False
    have "n mod 10 < 10" by simp
    with m have "digit (n mod 10) \<in> set ''0123456789''" by blast
    with False 1 show ?thesis by (simp add: decimal.simps [of n])
  qed
qed

lemma protocolID_inject [simp]:
  "protocolID s a n = protocolID s a n' \<longleftrightarrow> n = n'"
  by (simp add: protocolID_def)

section \<open>The loop that builds the handler map\<close>

lemma handlersLoop_lookup:
  "handlersLoop codec av s a ms hs = Returns hs' \<Longrightarrow>
   map_of hs' (protocolID s a n) =
     (if n \<in> Name ` set ms
      then Some (makeRequestHandler (MethodByName av n) (the (codec n)))
      else map_of hs (protocolID s a n))"
proof (induction ms arbitrary: hs)
  case Nil
  then show ?case by simp
next
  case (Cons m ms)
  then show ?case
    by (auto simp: Let_def update_conv split: option.splits)
qed

lemma handlersLoop_other:
  "handlersLoop codec av s a ms hs = Returns hs' \<Longrightarrow>
   p \<notin> (\<lambda>m. protocolID s a (Name m)) ` set ms \<Longrightarrow> map_of hs' p = map_of hs p"
proof (induction ms arbitrary: hs)
  case Nil
  then show ?case by simp
next
  case (Cons m ms)
  then show ?case
    by (auto simp: Let_def update_conv split: option.splits)
qed

lemma handlersLoop_distinct:
  "handlersLoop codec av s a ms hs = Returns hs' \<Longrightarrow>
   distinct (map fst hs) \<Longrightarrow> distinct (map fst hs')"
proof (induction ms arbitrary: hs)
  case Nil
  then show ?case by simp
next
  case (Cons m ms)
  then show ?case
    by (auto simp: Let_def distinct_update split: option.splits)
qed

lemma handlersLoop_Returns_iff:
  "(\<exists>hs'. handlersLoop codec av s a ms hs = Returns hs') \<longleftrightarrow>
   (\<forall>m \<in> set ms. codec (Name m) \<noteq> None)"
  by (induction ms arbitrary: hs) (auto simp: Let_def split: option.splits)

lemma handlersLoop_Panics:
  "handlersLoop codec av s a ms hs = Panics p \<Longrightarrow>
   \<exists>m \<in> set ms. p = CodecNotFound (Name m) \<and> codec (Name m) = None"
  by (induction ms arbitrary: hs) (auto simp: Let_def split: option.splits)

lemma handlersLoop_keys:
  "handlersLoop codec av s a ms hs = Returns hs' \<Longrightarrow>
   fst ` set hs' = fst ` set hs \<union> (\<lambda>m. protocolID s a (Name m)) ` set ms"
proof (induction ms arbitrary: hs)
  case Nil
  then show ?case by simp
next
  case (Cons m ms)
  from Cons.prems obtain mc where mc: "codec (Name m) = Some mc"
    and r: "handlersLoop codec av s a ms
              (AList.update (protocolID s a (Name m))
                 (makeRequestHandler (MethodByName av (Name m)) mc) hs) = Returns hs'"
    by (auto simp: Let_def split: option.splits)
  have "fst ` set (AList.update k v hs) = insert k (fst ` set hs)"
    for k and v :: "('a, 'b) RequestHandler"
    using dom_update [of k v hs] by (simp add: dom_map_of_conv_image_fst)
  with Cons.IH [OF r] show ?case by auto
qed

section \<open>Ranging over the handler map\<close>

text \<open>
  The keys of the handler map are distinct, so the loop that installs its entries ends
  with the handler table overridden by the map, in whatever order Go ranges over it.
\<close>

lemma range_SetRequestHandler:
  "distinct (map fst hs) \<Longrightarrow>
   fold (\<lambda>(name, handler). SetRequestHandler ctx name handler) hs manager = manager ++ map_of hs"
proof (induction hs arbitrary: manager)
  case Nil
  then show ?case by simp
next
  case (Cons x xs)
  obtain k v where x: "x = (k, v)" by (cases x)
  from Cons.prems have k: "map_of xs k = None" and d: "distinct (map fst xs)"
    by (auto simp: x map_of_eq_None_iff)
  have e: "manager(k \<mapsto> v) ++ map_of xs = manager ++ (map_of xs)(k \<mapsto> v)"
    using k by (auto simp: map_add_def fun_eq_iff split: option.splits)
  have "fold (\<lambda>(name, handler). SetRequestHandler ctx name handler) (x # xs) manager =
        fold (\<lambda>(name, handler). SetRequestHandler ctx name handler) xs (manager(k \<mapsto> v))"
    by (simp only: x fold_simps case_prod_conv SetRequestHandler_def)
  also have "\<dots> = manager(k \<mapsto> v) ++ map_of xs"
    by (rule Cons.IH [OF d])
  also have "\<dots> = manager ++ map_of (x # xs)"
    by (simp only: e x map_of.simps fst_conv snd_conv)
  finally show ?case .
qed

lemma range_order_irrelevant:
  assumes "distinct (map fst hs)" "distinct (map fst hs')" "set hs' = set hs"
  shows "fold (\<lambda>(name, handler). SetRequestHandler ctx name handler) hs' manager =
         fold (\<lambda>(name, handler). SetRequestHandler ctx name handler) hs manager"
proof -
  have "map_of hs' = map_of hs"
    using assms by (simp add: map_of_inject_set)
  then show ?thesis
    using assms by (simp add: range_SetRequestHandler)
qed

section \<open>What a registration does\<close>

lemma getRaw_Inr:
  assumes "getRawApiRequestHandlers nc P T api s a = Returns (Inr hs)"
  shows "\<exists>av codec. api = Some av \<and> Implements (map fst av) T \<and> nc T P = Inr codec \<and>
           handlersLoop codec av s a (filter isExportedMethod T) [] = Returns hs"
  using assms
  by (auto simp: getRawApiRequestHandlers_def Filter_def iterMethods_def
           split: option.splits if_splits sum.splits outcome.splits)

lemma getRaw_keys:
  assumes "getRawApiRequestHandlers nc P T api s a = Returns (Inr hs)"
  shows "fst ` set hs = (\<lambda>m. protocolID s a (Name m)) ` {m \<in> set T. isExportedMethod m}"
proof -
  from getRaw_Inr [OF assms] obtain av codec where
    "api = Some av" "nc T P = Inr codec"
    "handlersLoop codec av s a (filter isExportedMethod T) [] = Returns hs" by blast
  from handlersLoop_keys [OF this(3)] show ?thesis by simp
qed

lemma setRaw_success:
  assumes "setRawApiRequestHandlers nc ctx P T api s a manager logger =
             (Returns None, manager', logger')"
  shows "\<exists>av codec hs. api = Some av \<and> Implements (map fst av) T \<and> nc T P = Inr codec \<and>
           handlersLoop codec av s a (filter isExportedMethod T) [] = Returns hs \<and>
           manager' = manager ++ map_of hs \<and> logger' = logger"
proof -
  from assms obtain hs where g: "getRawApiRequestHandlers nc P T api s a = Returns (Inr hs)"
    and m: "manager' = fold (\<lambda>(name, handler). SetRequestHandler ctx name handler) hs manager"
    and l: "logger' = logger"
    by (auto simp: setRawApiRequestHandlers_def split: outcome.splits sum.splits)
  from getRaw_Inr [OF g] obtain av codec where
    a: "api = Some av" "Implements (map fst av) T" "nc T P = Inr codec"
    and h: "handlersLoop codec av s a (filter isExportedMethod T) [] = Returns hs"
    by blast
  from h have "distinct (map fst hs)"
    by (rule handlersLoop_distinct) simp
  then have "manager' = manager ++ map_of hs"
    by (simp only: m range_SetRequestHandler)
  with a h l show ?thesis by blast
qed

lemma setRaw_installed:
  assumes "setRawApiRequestHandlers nc ctx P T api s a manager logger =
             (Returns None, manager', logger')"
  shows "\<exists>av codec. api = Some av \<and> Implements (map fst av) T \<and> nc T P = Inr codec \<and>
           (\<forall>m \<in> set T. isExportedMethod m \<longrightarrow>
              (\<exists>mc. codec (Name m) = Some mc \<and>
                 manager' (protocolID s a (Name m)) =
                   Some (makeRequestHandler (MethodByName av (Name m)) mc))) \<and>
           (\<forall>p. (\<forall>m \<in> set T. isExportedMethod m \<longrightarrow> p \<noteq> protocolID s a (Name m)) \<longrightarrow>
              manager' p = manager p)"
proof -
  from setRaw_success [OF assms] obtain av codec hs where
    a: "api = Some av" "Implements (map fst av) T" "nc T P = Inr codec"
    and h: "handlersLoop codec av s a (filter isExportedMethod T) [] = Returns hs"
    and m: "manager' = manager ++ map_of hs"
    by blast
  have c: "\<forall>m \<in> set (filter isExportedMethod T). codec (Name m) \<noteq> None"
    using h handlersLoop_Returns_iff [of codec av s a "filter isExportedMethod T" "[]"] by blast
  have 1: "\<exists>mc. codec (Name m) = Some mc \<and>
             manager' (protocolID s a (Name m)) =
               Some (makeRequestHandler (MethodByName av (Name m)) mc)"
    if "m \<in> set T" "isExportedMethod m" for m
  proof -
    from that c obtain mc where mc: "codec (Name m) = Some mc" by auto
    from that have "Name m \<in> Name ` set (filter isExportedMethod T)" by auto
    with handlersLoop_lookup [OF h, of "Name m"] mc
    have "map_of hs (protocolID s a (Name m)) =
            Some (makeRequestHandler (MethodByName av (Name m)) mc)"
      by simp
    with mc m show ?thesis by (simp add: map_add_def)
  qed
  have 2: "manager' p = manager p"
    if "\<forall>m \<in> set T. isExportedMethod m \<longrightarrow> p \<noteq> protocolID s a (Name m)" for p
  proof -
    from that have "p \<notin> (\<lambda>m. protocolID s a (Name m)) ` set (filter isExportedMethod T)"
      by auto
    from handlersLoop_other [OF h this] have "map_of hs p = None" by simp
    with m show ?thesis by (simp add: map_add_def)
  qed
  from a 1 2 show ?thesis by blast
qed

lemma setRaw_not_success:
  assumes "setRawApiRequestHandlers nc ctx P T api s a manager logger = (r, manager', logger')"
    and "r \<noteq> Returns None"
  shows "manager' = manager"
  using assms
  by (auto simp: setRawApiRequestHandlers_def split: outcome.splits sum.splits)

lemma Implements_MethodByName:
  assumes "Implements (map fst av) T" "m \<in> set T" "isExportedMethod m"
  shows "\<exists>f. MethodByName av (Name m) = Some f"
proof -
  from assms obtain f where "(m, f) \<in> set av"
    by (auto simp: Implements_def)
  with assms(3) have "\<exists>mf \<in> set av. Name (fst mf) = Name m \<and> isExportedMethod (fst mf)"
    by force
  then have "find (\<lambda>mf. Name (fst mf) = Name m \<and> isExportedMethod (fst mf)) av \<noteq> None"
    unfolding find_None_iff by blast
  then show ?thesis
    by (auto simp: MethodByName_def)
qed

section \<open>The example wiring, run\<close>

lemmas ex_defs =
  setRawApiRequestHandlers_def getRawApiRequestHandlers_def exApi_def exShardApi_def
  exShardApiRo_def exGetBalance_def exSetNodeApi_def exSendTransaction_def Implements_def
  exNewApiCodec_def NetworkTransportProtocolRo_def NetworkTransportProtocol_def pbMethod_def
  Filter_def iterMethods_def isExportedMethod_def MethodByName_def SetRequestHandler_def
  protocolID_def decimal.simps digit_def exManager_def

lemma ex_run_readonly:
  "setRawApiRequestHandlers exNewApiCodec 7 NetworkTransportProtocolRo exShardApiRo exApi 3
     ''rawapi'' Map.empty [] = (Returns None, exManager, [])"
  by (simp add: ex_defs)

section \<open>Claims about request handling\<close>

text \<open>
  C2. Every handler that a successful registration installs for an exported method answers
  a request that the method's codec cannot decode with the codec's packed error payload
  and a nil transport error; it returns, it does not panic.
\<close>

theorem malformed_request_packed_error:
  assumes "setRawApiRequestHandlers nc ctx P T api s a manager logger =
             (Returns None, manager', logger')"
    and "m \<in> set T" and "isExportedMethod m"
  shows "\<exists>codec mc h. nc T P = Inr codec \<and> codec (Name m) = Some mc \<and>
           manager' (protocolID s a (Name m)) = Some h \<and>
           (\<forall>c request err. unpackRequest mc request = Inl err \<longrightarrow>
              h c request = Returns (packError mc err, None))"
proof -
  from setRaw_installed [OF assms(1)] assms(2,3) obtain av codec mc where
    c: "nc T P = Inr codec" "codec (Name m) = Some mc"
    and h: "manager' (protocolID s a (Name m)) =
              Some (makeRequestHandler (MethodByName av (Name m)) mc)"
    by blast
  have "makeRequestHandler (MethodByName av (Name m)) mc c request =
          Returns (packError mc err, None)"
    if "unpackRequest mc request = Inl err" for c request err
    using that by (simp add: makeRequestHandler_def)
  with c h show ?thesis by blast
qed

text \<open>
  The instance of C2 in the example wiring: the handler of \<open>GetBalance\<close> on the empty
  request.
\<close>

theorem malformed_request_packed_error_witness:
  "setRawApiRequestHandlers exNewApiCodec 7 NetworkTransportProtocolRo exShardApiRo exApi 3
     ''rawapi'' Map.empty [] = (Returns None, exManager, []) \<and>
   exGetBalance \<in> set exShardApiRo \<and> isExportedMethod exGetBalance \<and>
   unpackRequest exCodec [] = Inl (New ''malformed request'') \<and>
   (\<exists>codec mc h. exNewApiCodec exShardApiRo NetworkTransportProtocolRo = Inr codec \<and>
      codec (Name exGetBalance) = Some mc \<and>
      exManager (protocolID 3 ''rawapi'' (Name exGetBalance)) = Some h \<and>
      (\<forall>c request err. unpackRequest mc request = Inl err \<longrightarrow>
         h c request = Returns (packError mc err, None)))"
proof -
  have m: "exGetBalance \<in> set exShardApiRo" "isExportedMethod exGetBalance"
    by (simp_all add: exShardApiRo_def exGetBalance_def isExportedMethod_def)
  have u: "unpackRequest exCodec [] = Inl (New ''malformed request'')"
    by (simp add: exCodec_def)
  from malformed_request_packed_error [OF ex_run_readonly m] m u ex_run_readonly
  show ?thesis by (intro conjI)
qed

lemma registered_handler:
  assumes "setRawApiRequestHandlers nc ctx P T api s a manager logger =
             (Returns None, manager', logger')"
    and "m \<in> set T" and "isExportedMethod m"
  shows "\<exists>av codec mc f. api = Some av \<and> nc T P = Inr codec \<and> codec (Name m) = Some mc \<and>
           MethodByName av (Name m) = Some f \<and>
           manager' (protocolID s a (Name m)) = Some (makeRequestHandler (Some f) mc)"
proof -
  from setRaw_installed [OF assms(1)] assms(2,3) obtain av codec mc where
    a: "api = Some av" "Implements (map fst av) T"
    and c: "nc T P = Inr codec" "codec (Name m) = Some mc"
    and h: "manager' (protocolID s a (Name m)) =
              Some (makeRequestHandler (MethodByName av (Name m)) mc)"
    by blast
  from Implements_MethodByName [OF a(2) assms(2,3)] obtain f where
    "MethodByName av (Name m) = Some f" by blast
  with a c h show ?thesis by simp
qed

lemma ex_member:
  "exGetBalance \<in> set exShardApiRo" "isExportedMethod exGetBalance"
  by (simp_all add: exShardApiRo_def exGetBalance_def isExportedMethod_def)

text \<open>
  C4. Every handler that a successful registration installs for an exported method, on a
  request that the method's codec decodes, calls the bound method of that name with the
  execution context first and the decoded arguments after it, in order, and returns what
  the codec's \<open>packResponse\<close> makes of the results of the call (a panic of the method
  passes through).
\<close>

theorem decoded_request_dispatch:
  assumes "setRawApiRequestHandlers nc ctx P T api s a manager logger =
             (Returns None, manager', logger')"
    and "m \<in> set T" and "isExportedMethod m"
  shows "\<exists>av codec mc f h. api = Some av \<and> nc T P = Inr codec \<and> codec (Name m) = Some mc \<and>
           MethodByName av (Name m) = Some f \<and>
           manager' (protocolID s a (Name m)) = Some h \<and>
           (\<forall>c request args. unpackRequest mc request = Inr args \<longrightarrow>
              h c request =
                (case f (ValueOf_ctx c # args) of
                   Panics p \<Rightarrow> Panics p
                 | Returns results \<Rightarrow> Returns (packResponse mc results)))"
proof -
  from registered_handler [OF assms] obtain av codec mc f where
    r: "api = Some av" "nc T P = Inr codec" "codec (Name m) = Some mc"
       "MethodByName av (Name m) = Some f"
       "manager' (protocolID s a (Name m)) = Some (makeRequestHandler (Some f) mc)"
    by blast
  have "makeRequestHandler (Some f) mc c request =
          (case f (ValueOf_ctx c # args) of
             Panics p \<Rightarrow> Panics p
           | Returns results \<Rightarrow> Returns (packResponse mc results))"
    if "unpackRequest mc request = Inr args" for c request args
    using that by (simp add: makeRequestHandler_def Call_def)
  with r show ?thesis by blast
qed

text \<open>
  The instance of C4 in the example wiring: the request \<open>[5]\<close> to \<open>GetBalance\<close>.
\<close>

theorem decoded_request_dispatch_witness:
  "setRawApiRequestHandlers exNewApiCodec 7 NetworkTransportProtocolRo exShardApiRo exApi 3
     ''rawapi'' Map.empty [] = (Returns None, exManager, []) \<and>
   exGetBalance \<in> set exShardApiRo \<and> isExportedMethod exGetBalance \<and>
   unpackRequest exCodec [5] = Inr [ValueOf 5] \<and>
   exMethod [ValueOf_ctx 7, ValueOf 5] = Returns [ValueOf 6] \<and>
   packResponse exCodec [ValueOf 6] = ([6], None) \<and>
   (\<exists>av codec mc f h. exApi = Some av \<and>
      exNewApiCodec exShardApiRo NetworkTransportProtocolRo = Inr codec \<and>
      codec (Name exGetBalance) = Some mc \<and>
      MethodByName av (Name exGetBalance) = Some f \<and>
      exManager (protocolID 3 ''rawapi'' (Name exGetBalance)) = Some h \<and>
      (\<forall>c request args. unpackRequest mc request = Inr args \<longrightarrow>
         h c request =
           (case f (ValueOf_ctx c # args) of
              Panics p \<Rightarrow> Panics p
            | Returns results \<Rightarrow> Returns (packResponse mc results))))"
proof -
  have u: "unpackRequest exCodec [5] = Inr [ValueOf 5]"
    by (simp add: exCodec_def)
  have c: "exMethod [ValueOf_ctx 7, ValueOf 5] = Returns [ValueOf 6]"
    by (simp add: exMethod_def)
  have p: "packResponse exCodec [ValueOf 6] = ([6], None)"
    by (simp add: exCodec_def)
  from decoded_request_dispatch [OF ex_run_readonly ex_member] ex_member u c p ex_run_readonly
  show ?thesis by (intro conjI)
qed

text \<open>
  C10. When the request decodes, the method returns and \<open>packResponse\<close> fails, the
  handler returns the pair of \<open>packResponse\<close> as it is: its error is the transport-level
  error, and the answer is not the packed error payload with a nil error.
\<close>

theorem packResponse_error_is_transport_error:
  assumes "setRawApiRequestHandlers nc ctx P T api s a manager logger =
             (Returns None, manager', logger')"
    and "m \<in> set T" and "isExportedMethod m"
  shows "\<exists>av codec mc f h. api = Some av \<and> nc T P = Inr codec \<and> codec (Name m) = Some mc \<and>
           MethodByName av (Name m) = Some f \<and>
           manager' (protocolID s a (Name m)) = Some h \<and>
           (\<forall>c request args results b e.
              unpackRequest mc request = Inr args \<longrightarrow>
              f (ValueOf_ctx c # args) = Returns results \<longrightarrow>
              packResponse mc results = (b, Some e) \<longrightarrow>
              h c request = Returns (b, Some e) \<and>
              h c request \<noteq> Returns (packError mc e, None))"
proof -
  from registered_handler [OF assms] obtain av codec mc f where
    r: "api = Some av" "nc T P = Inr codec" "codec (Name m) = Some mc"
       "MethodByName av (Name m) = Some f"
       "manager' (protocolID s a (Name m)) = Some (makeRequestHandler (Some f) mc)"
    by blast
  have "makeRequestHandler (Some f) mc c request = Returns (b, Some e) \<and>
        makeRequestHandler (Some f) mc c request \<noteq> Returns (packError mc e, None)"
    if "unpackRequest mc request = Inr args" "f (ValueOf_ctx c # args) = Returns results"
       "packResponse mc results = (b, Some e)" for c request args results b e
    using that by (simp add: makeRequestHandler_def Call_def)
  with r show ?thesis by blast
qed

text \<open>
  The instance of C10 in the example wiring: the request \<open>[255]\<close>, whose result \<open>[0]\<close>
  the example codec cannot pack.
\<close>

theorem packResponse_error_is_transport_error_witness:
  "setRawApiRequestHandlers exNewApiCodec 7 NetworkTransportProtocolRo exShardApiRo exApi 3
     ''rawapi'' Map.empty [] = (Returns None, exManager, []) \<and>
   exGetBalance \<in> set exShardApiRo \<and> isExportedMethod exGetBalance \<and>
   unpackRequest exCodec [255] = Inr [ValueOf 255] \<and>
   exMethod [ValueOf_ctx 7, ValueOf 255] = Returns [ValueOf 0] \<and>
   packResponse exCodec [ValueOf 0] = ([], Some (New ''cannot pack'')) \<and>
   (\<exists>av codec mc f h. exApi = Some av \<and>
      exNewApiCodec exShardApiRo NetworkTransportProtocolRo = Inr codec \<and>
      codec (Name exGetBalance) = Some mc \<and>
      MethodByName av (Name exGetBalance) = Some f \<and>
      exManager (protocolID 3 ''rawapi'' (Name exGetBalance)) = Some h \<and>
      (\<forall>c request args results b e.
         unpackRequest mc request = Inr args \<longrightarrow>
         f (ValueOf_ctx c # args) = Returns results \<longrightarrow>
         packResponse mc results = (b, Some e) \<longrightarrow>
         h c request = Returns (b, Some e) \<and>
         h c request \<noteq> Returns (packError mc e, None)))"
proof -
  have u: "unpackRequest exCodec [255] = Inr [ValueOf 255]"
    by (simp add: exCodec_def)
  have c: "exMethod [ValueOf_ctx 7, ValueOf 255] = Returns [ValueOf 0]"
    by (simp add: exMethod_def)
  have p: "packResponse exCodec [ValueOf 0] = ([], Some (New ''cannot pack''))"
    by (simp add: exCodec_def)
  from packResponse_error_is_transport_error [OF ex_run_readonly ex_member]
    ex_member u c p ex_run_readonly
  show ?thesis by (intro conjI)
qed

section \<open>Claims about registration\<close>

text \<open>
  C1. A successful registration at shard \<open>s\<close> under api name \<open>a\<close> installs, for
  every exported method \<open>m\<close> of the API type, the handler of \<open>m\<close> under the identifier
  \<open>/shard/<s>/<a>/<m>\<close>, with \<open>s\<close> in decimal; the handler table is unchanged at every
  other identifier, and so at the identifier of a method that is not exported.
\<close>

theorem handlers_installed_under_protocol_ids:
  assumes "setRawApiRequestHandlers nc ctx P T api s a manager logger =
             (Returns None, manager', logger')"
  shows "\<exists>av codec. api = Some av \<and> nc T P = Inr codec \<and>
           (\<forall>m \<in> set T. isExportedMethod m \<longrightarrow>
              (\<exists>mc. codec (Name m) = Some mc \<and>
                 manager' (''/shard/'' @ decimal (unat s) @ ''/'' @ a @ ''/'' @ Name m) =
                   Some (makeRequestHandler (MethodByName av (Name m)) mc))) \<and>
           (\<forall>p. (\<forall>m \<in> set T. isExportedMethod m \<longrightarrow>
                    p \<noteq> ''/shard/'' @ decimal (unat s) @ ''/'' @ a @ ''/'' @ Name m) \<longrightarrow>
              manager' p = manager p) \<and>
           (\<forall>m \<in> set T. \<not> isExportedMethod m \<longrightarrow>
              (\<forall>m' \<in> set T. isExportedMethod m' \<longrightarrow> Name m' \<noteq> Name m) \<longrightarrow>
              manager' (''/shard/'' @ decimal (unat s) @ ''/'' @ a @ ''/'' @ Name m) =
                manager (''/shard/'' @ decimal (unat s) @ ''/'' @ a @ ''/'' @ Name m))"
proof -
  from setRaw_installed [OF assms] obtain av codec where
    a: "api = Some av" "nc T P = Inr codec"
    and i: "\<forall>m \<in> set T. isExportedMethod m \<longrightarrow>
              (\<exists>mc. codec (Name m) = Some mc \<and>
                 manager' (protocolID s a (Name m)) =
                   Some (makeRequestHandler (MethodByName av (Name m)) mc))"
    and o: "\<forall>p. (\<forall>m \<in> set T. isExportedMethod m \<longrightarrow> p \<noteq> protocolID s a (Name m)) \<longrightarrow>
              manager' p = manager p"
    by blast
  have u: "manager' (protocolID s a (Name m)) = manager (protocolID s a (Name m))"
    if "\<forall>m' \<in> set T. isExportedMethod m' \<longrightarrow> Name m' \<noteq> Name m" for m
  proof -
    from that have "\<forall>m' \<in> set T. isExportedMethod m' \<longrightarrow>
                      protocolID s a (Name m) \<noteq> protocolID s a (Name m')"
      by auto
    with o show ?thesis by blast
  qed
  from a i o u show ?thesis
    unfolding protocolID_def by blast
qed

text \<open>
  The instance of C1 in the example wiring: \<open>GetBalance\<close> is installed under
  \<open>/shard/3/rawapi/GetBalance\<close>, the unexported \<open>setNodeApi\<close> is not installed.
\<close>

theorem handlers_installed_under_protocol_ids_witness:
  "setRawApiRequestHandlers exNewApiCodec 7 NetworkTransportProtocolRo exShardApiRo exApi 3
     ''rawapi'' Map.empty [] = (Returns None, exManager, []) \<and>
   exGetBalance \<in> set exShardApiRo \<and> isExportedMethod exGetBalance \<and>
   exSetNodeApi \<in> set exShardApiRo \<and> \<not> isExportedMethod exSetNodeApi \<and>
   ''/shard/'' @ decimal (unat (3 :: ShardId)) @ ''/'' @ ''rawapi'' @ ''/'' @ Name exGetBalance =
     ''/shard/3/rawapi/GetBalance'' \<and>
   (\<exists>av codec. exApi = Some av \<and>
      exNewApiCodec exShardApiRo NetworkTransportProtocolRo = Inr codec \<and>
      (\<forall>m \<in> set exShardApiRo. isExportedMethod m \<longrightarrow>
         (\<exists>mc. codec (Name m) = Some mc \<and>
            exManager (''/shard/'' @ decimal (unat (3 :: ShardId)) @ ''/'' @ ''rawapi'' @ ''/'' @ Name m) =
              Some (makeRequestHandler (MethodByName av (Name m)) mc))) \<and>
      (\<forall>p. (\<forall>m \<in> set exShardApiRo. isExportedMethod m \<longrightarrow>
               p \<noteq> ''/shard/'' @ decimal (unat (3 :: ShardId)) @ ''/'' @ ''rawapi'' @ ''/'' @ Name m) \<longrightarrow>
         exManager p = Map.empty p) \<and>
      (\<forall>m \<in> set exShardApiRo. \<not> isExportedMethod m \<longrightarrow>
         (\<forall>m' \<in> set exShardApiRo. isExportedMethod m' \<longrightarrow> Name m' \<noteq> Name m) \<longrightarrow>
         exManager (''/shard/'' @ decimal (unat (3 :: ShardId)) @ ''/'' @ ''rawapi'' @ ''/'' @ Name m) =
           Map.empty (''/shard/'' @ decimal (unat (3 :: ShardId)) @ ''/'' @ ''rawapi'' @ ''/'' @ Name m)))"
proof -
  have n: "exSetNodeApi \<in> set exShardApiRo" "\<not> isExportedMethod exSetNodeApi"
    by (simp_all add: exShardApiRo_def exSetNodeApi_def isExportedMethod_def)
  have p: "''/shard/'' @ decimal (unat (3 :: ShardId)) @ ''/'' @ ''rawapi'' @ ''/'' @ Name exGetBalance =
             ''/shard/3/rawapi/GetBalance''"
    by (simp add: decimal.simps digit_def exGetBalance_def)
  from handlers_installed_under_protocol_ids [OF ex_run_readonly] ex_member n p ex_run_readonly
  show ?thesis by (intro conjI)
qed







text \<open>
  C6, as the code has it. The outcome of \<open>SetRawApiRequestHandlers\<close> is fixed by four
  cases. A nil \<open>api\<close> panics in \<open>reflect.Value.Type\<close>; an \<open>api\<close> that does not implement
  the selected API type panics in the first \<open>check.PanicIfNotf\<close>; when the codec table
  cannot be built the call returns an error that wraps \<open>errRequestHandlerCreation\<close>; when
  it is built the call succeeds if the table has an entry for every exported method and
  panics in the second \<open>check.PanicIfNotf\<close> at a method without entry otherwise. Unless it
  succeeds, the handler table is unchanged.
\<close>

theorem registration_outcomes:
  assumes "SetRawApiRequestHandlers nc ShardApiRo ShardApi ctx s api manager readonly logger =
             (r, manager', logger')"
    and "T = (if readonly then ShardApiRo else ShardApi)"
    and "P = (if readonly then NetworkTransportProtocolRo else NetworkTransportProtocol)"
  shows "(api = None \<longrightarrow> r = Panics ZeroValueType) \<and>
         (\<forall>av. api = Some av \<longrightarrow> \<not> Implements (map fst av) T \<longrightarrow>
            r = Panics ApiDoesNotImplement) \<and>
         (\<forall>av e. api = Some av \<longrightarrow> Implements (map fst av) T \<longrightarrow> nc T P = Inl e \<longrightarrow>
            r = Returns (Some (Errorf_ww errRequestHandlerCreation e))) \<and>
         (\<forall>av codec. api = Some av \<longrightarrow> Implements (map fst av) T \<longrightarrow> nc T P = Inr codec \<longrightarrow>
            (if \<forall>m \<in> set T. isExportedMethod m \<longrightarrow> codec (Name m) \<noteq> None
             then r = Returns None
             else \<exists>m \<in> set T. isExportedMethod m \<and> codec (Name m) = None \<and>
                    r = Panics (CodecNotFound (Name m)))) \<and>
         (r \<noteq> Returns None \<longrightarrow> manager' = manager)"
proof -
  have run: "setRawApiRequestHandlers nc ctx P T api s ''rawapi'' manager logger =
               (r, manager', logger')"
    using assms by (simp add: SetRawApiRequestHandlers_def split: if_splits)
  have 1: "r = Panics ZeroValueType" if "api = None"
    using that run by (simp add: setRawApiRequestHandlers_def getRawApiRequestHandlers_def)
  have 2: "r = Panics ApiDoesNotImplement"
    if "api = Some av" "\<not> Implements (map fst av) T" for av
    using that run by (simp add: setRawApiRequestHandlers_def getRawApiRequestHandlers_def)
  have 3: "r = Returns (Some (Errorf_ww errRequestHandlerCreation e))"
    if "api = Some av" "Implements (map fst av) T" "nc T P = Inl e" for av e
    using that run by (simp add: setRawApiRequestHandlers_def getRawApiRequestHandlers_def)
  have 4: "if \<forall>m \<in> set T. isExportedMethod m \<longrightarrow> codec (Name m) \<noteq> None
           then r = Returns None
           else \<exists>m \<in> set T. isExportedMethod m \<and> codec (Name m) = None \<and>
                  r = Panics (CodecNotFound (Name m))"
    if a: "api = Some av" "Implements (map fst av) T" "nc T P = Inr codec" for av codec
  proof (cases "\<forall>m \<in> set T. isExportedMethod m \<longrightarrow> codec (Name m) \<noteq> None")
    case True
    then have "\<forall>m \<in> set (filter isExportedMethod T). codec (Name m) \<noteq> None" by simp
    then obtain hs where
      "handlersLoop codec av s ''rawapi'' (filter isExportedMethod T) [] = Returns hs"
      using handlersLoop_Returns_iff [of codec av s "''rawapi''" "filter isExportedMethod T" "[]"]
      by blast
    with a run have "r = Returns None"
      by (simp add: setRawApiRequestHandlers_def getRawApiRequestHandlers_def
                    Filter_def iterMethods_def)
    with True show ?thesis by simp
  next
    case False
    then have "\<not> (\<forall>m \<in> set (filter isExportedMethod T). codec (Name m) \<noteq> None)" by auto
    then have "\<nexists>hs. handlersLoop codec av s ''rawapi'' (filter isExportedMethod T) [] = Returns hs"
      using handlersLoop_Returns_iff [of codec av s "''rawapi''" "filter isExportedMethod T" "[]"]
      by blast
    then obtain p where
      p: "handlersLoop codec av s ''rawapi'' (filter isExportedMethod T) [] = Panics p"
      by (cases "handlersLoop codec av s ''rawapi'' (filter isExportedMethod T) []") auto
    from handlersLoop_Panics [OF p] obtain m where
      m: "m \<in> set T" "isExportedMethod m" "p = CodecNotFound (Name m)" "codec (Name m) = None"
      by auto
    from a run p have "r = Panics p"
      by (simp add: setRawApiRequestHandlers_def getRawApiRequestHandlers_def
                    Filter_def iterMethods_def)
    with m False show ?thesis by auto
  qed
  have 5: "manager' = manager" if "r \<noteq> Returns None"
    using run that by (rule setRaw_not_success)
  from 1 2 3 4 5 show ?thesis by blast
qed

lemma ex_implements_ro:
  "\<exists>av. exApi = Some av \<and> Implements (map fst av) exShardApiRo"
  by (auto simp: exApi_def exShardApi_def Implements_def image_image)

lemma ex_codec_ro:
  "\<exists>codec. exNewApiCodec exShardApiRo NetworkTransportProtocolRo = Inr codec \<and>
     list_all (\<lambda>m. isExportedMethod m \<longrightarrow> codec (Name m) \<noteq> None) exShardApiRo"
  by (simp add: ex_defs)

text \<open>
  Instances of the outcomes in the example wiring: the read-only registration succeeds, a
  nil \<open>api\<close> panics and leaves the handler table as it was.
\<close>

theorem registration_outcomes_witness:
  "(\<exists>av. exApi = Some av \<and> Implements (map fst av) exShardApiRo) \<and>
   (\<exists>codec. exNewApiCodec exShardApiRo NetworkTransportProtocolRo = Inr codec \<and>
      list_all (\<lambda>m. isExportedMethod m \<longrightarrow> codec (Name m) \<noteq> None) exShardApiRo) \<and>
   fst (SetRawApiRequestHandlers exNewApiCodec exShardApiRo exShardApi 7 3 exApi Map.empty True [])
     = Returns None \<and>
   fst (SetRawApiRequestHandlers exNewApiCodec exShardApiRo exShardApi 7 3 None exManager True [])
     = Panics ZeroValueType \<and>
   fst (snd (SetRawApiRequestHandlers exNewApiCodec exShardApiRo exShardApi 7 3 None exManager
               True [])) = exManager"
proof -
  obtain r manager' logger' where
    run: "SetRawApiRequestHandlers exNewApiCodec exShardApiRo exShardApi 7 3 exApi Map.empty
            True [] = (r, manager', logger')"
    by (cases "SetRawApiRequestHandlers exNewApiCodec exShardApiRo exShardApi 7 3 exApi
                 Map.empty True []")
  obtain r0 manager0 logger0 where
    run0: "SetRawApiRequestHandlers exNewApiCodec exShardApiRo exShardApi 7 3 None exManager
             True [] = (r0, manager0, logger0)"
    by (cases "SetRawApiRequestHandlers exNewApiCodec exShardApiRo exShardApi 7 3 None
                 exManager True []")
  have T: "exShardApiRo = (if True then exShardApiRo else exShardApi)"
    and P: "NetworkTransportProtocolRo =
              (if True then NetworkTransportProtocolRo else NetworkTransportProtocol)"
    by simp_all
  from ex_implements_ro ex_codec_ro obtain av codec where
    a: "exApi = Some av" "Implements (map fst av) exShardApiRo"
       "exNewApiCodec exShardApiRo NetworkTransportProtocolRo = Inr codec"
       "\<forall>m \<in> set exShardApiRo. isExportedMethod m \<longrightarrow> codec (Name m) \<noteq> None"
    by (auto simp: list_all_iff)
  from registration_outcomes [OF run T P] a have r: "r = Returns None"
    by metis
  from registration_outcomes [OF run0 T P] have r0: "r0 = Panics ZeroValueType"
    by blast
  then have "r0 \<noteq> Returns None" by simp
  with registration_outcomes [OF run0 T P] have "manager0 = exManager"
    by blast
  with r r0 run run0 ex_implements_ro ex_codec_ro show ?thesis by simp
qed

text \<open>
  C6 as stated fails: a registration can end in a panic, which is neither success nor an
  error returned to the caller. The entry point panics on a nil \<open>api\<close>, and
  \<open>setRawApiRequestHandlers\<close> panics on an \<open>api\<close> with \<open>GetBalance\<close> and \<open>setNodeApi\<close>
  only, registered against the API type that also has \<open>SendTransaction\<close>.
\<close>

theorem registration_panics_counterexample:
  "fst (SetRawApiRequestHandlers exNewApiCodec exShardApiRo exShardApi 7 3 None Map.empty
          False []) = Panics ZeroValueType \<and>
   fst (setRawApiRequestHandlers exNewApiCodec 7 NetworkTransportProtocol exShardApi
          (Some [(exGetBalance, exMethod), (exSetNodeApi, exMethod)]) 3 ''rawapi'' Map.empty []) =
     Panics ApiDoesNotImplement"
  by (simp add: SetRawApiRequestHandlers_def ex_defs)

text \<open>
  C7. With the API implemented and the codec table built: a registration that succeeds has
  found, for every exported method of the API type, the one entry of the table under the
  method's name, and the installed handler holds that entry, so a handler never looks the
  table up when a request arrives. If an entry is missing for an exported method, the
  registration panics at such a method, and the handler table is unchanged: the absence
  shows before any handler is installed.
\<close>

theorem codec_entry_for_every_exposed_method:
  assumes "api = Some av" and "Implements (map fst av) T" and "nc T P = Inr codec"
    and "setRawApiRequestHandlers nc ctx P T api s a manager logger = (r, manager', logger')"
  shows "(r = Returns None \<longrightarrow>
            (\<forall>m \<in> set T. isExportedMethod m \<longrightarrow>
               (\<exists>!mc. codec (Name m) = Some mc \<and>
                  manager' (protocolID s a (Name m)) =
                    Some (makeRequestHandler (MethodByName av (Name m)) mc)))) \<and>
         ((\<exists>m \<in> set T. isExportedMethod m \<and> codec (Name m) = None) \<longrightarrow>
            (\<exists>m \<in> set T. isExportedMethod m \<and> codec (Name m) = None \<and>
               r = Panics (CodecNotFound (Name m))) \<and>
            manager' = manager)"
proof -
  have 1: "\<exists>!mc. codec (Name m) = Some mc \<and>
             manager' (protocolID s a (Name m)) =
               Some (makeRequestHandler (MethodByName av (Name m)) mc)"
    if r: "r = Returns None" and m: "m \<in> set T" "isExportedMethod m" for m
  proof -
    from assms(4) r have
      "setRawApiRequestHandlers nc ctx P T api s a manager logger = (Returns None, manager', logger')"
      by simp
    from setRaw_installed [OF this] assms(1,3) m show ?thesis by auto
  qed
  have 2: "(\<exists>m \<in> set T. isExportedMethod m \<and> codec (Name m) = None \<and>
              r = Panics (CodecNotFound (Name m))) \<and> manager' = manager"
    if "\<exists>m \<in> set T. isExportedMethod m \<and> codec (Name m) = None"
  proof -
    from that have "\<not> (\<forall>m \<in> set (filter isExportedMethod T). codec (Name m) \<noteq> None)"
      by auto
    then have "\<nexists>hs. handlersLoop codec av s a (filter isExportedMethod T) [] = Returns hs"
      using handlersLoop_Returns_iff [of codec av s a "filter isExportedMethod T" "[]"]
      by blast
    then obtain p where
      p: "handlersLoop codec av s a (filter isExportedMethod T) [] = Panics p"
      by (cases "handlersLoop codec av s a (filter isExportedMethod T) []") auto
    from handlersLoop_Panics [OF p] obtain m where
      m: "m \<in> set T" "isExportedMethod m" "p = CodecNotFound (Name m)" "codec (Name m) = None"
      by auto
    from assms p have r: "r = Panics p"
      by (simp add: setRawApiRequestHandlers_def getRawApiRequestHandlers_def
                    Filter_def iterMethods_def)
    then have "r \<noteq> Returns None" by simp
    with assms(4) have "manager' = manager" by (rule setRaw_not_success)
    with m r show ?thesis by blast
  qed
  from 1 2 show ?thesis by blast
qed

lemma ex_exported_ro:
  "m \<in> set exShardApiRo \<Longrightarrow> isExportedMethod m \<Longrightarrow> m = exGetBalance"
  by (auto simp: exShardApiRo_def exSetNodeApi_def isExportedMethod_def)

text \<open>
  Instances of C7 in the example wiring: the entry of \<open>GetBalance\<close> in the installed
  handler, and the panic of a registration whose codec table is empty.
\<close>

theorem codec_entry_for_every_exposed_method_witness:
  "(\<exists>av. exApi = Some av \<and> Implements (map fst av) exShardApiRo) \<and>
   (\<exists>codec. exNewApiCodec exShardApiRo NetworkTransportProtocolRo = Inr codec \<and>
      (\<exists>!mc. codec ''GetBalance'' = Some mc \<and>
         exManager ''/shard/3/rawapi/GetBalance'' = Some (makeRequestHandler (Some exMethod) mc))) \<and>
   exNoCodec exShardApiRo NetworkTransportProtocolRo = Inr Map.empty \<and>
   setRawApiRequestHandlers exNoCodec 7 NetworkTransportProtocolRo exShardApiRo exApi 3
     ''rawapi'' exManager [] = (Panics (CodecNotFound ''GetBalance''), exManager, [])"
proof -
  from ex_implements_ro obtain av where
    a: "exApi = Some av" "Implements (map fst av) exShardApiRo" by blast
  from ex_codec_ro obtain codec where
    c: "exNewApiCodec exShardApiRo NetworkTransportProtocolRo = Inr codec" by blast
  have n: "exNoCodec exShardApiRo NetworkTransportProtocolRo = Inr Map.empty"
    by (simp add: exNoCodec_def)
  obtain r manager' logger' where
    run: "setRawApiRequestHandlers exNoCodec 7 NetworkTransportProtocolRo exShardApiRo exApi 3
            ''rawapi'' exManager [] = (r, manager', logger')"
    by (cases "setRawApiRequestHandlers exNoCodec 7 NetworkTransportProtocolRo exShardApiRo
                 exApi 3 ''rawapi'' exManager []")
  have "\<exists>!mc. codec (Name exGetBalance) = Some mc \<and>
          exManager (protocolID 3 ''rawapi'' (Name exGetBalance)) =
            Some (makeRequestHandler (MethodByName av (Name exGetBalance)) mc)"
    using codec_entry_for_every_exposed_method [OF a c ex_run_readonly] ex_member by blast
  moreover have "Name exGetBalance = ''GetBalance''"
    "protocolID 3 ''rawapi'' ''GetBalance'' = ''/shard/3/rawapi/GetBalance''"
    "MethodByName av ''GetBalance'' = Some exMethod"
    using a(1) by (auto simp: ex_defs)
  ultimately have 1: "\<exists>!mc. codec ''GetBalance'' = Some mc \<and>
      exManager ''/shard/3/rawapi/GetBalance'' = Some (makeRequestHandler (Some exMethod) mc)"
    by simp
  have "\<exists>m \<in> set exShardApiRo. isExportedMethod m \<and> Map.empty (Name m) = None"
    using ex_member by blast
  with codec_entry_for_every_exposed_method [OF a n run]
  have "(\<exists>m \<in> set exShardApiRo. isExportedMethod m \<and> r = Panics (CodecNotFound (Name m)))"
    and m: "manager' = exManager"
    by blast+
  then have r: "r = Panics (CodecNotFound ''GetBalance'')"
    by (auto dest!: ex_exported_ro simp: exGetBalance_def)
  have l: "logger' = []"
    using run r
    by (auto simp: setRawApiRequestHandlers_def split: outcome.splits sum.splits)
  from run r m l a c 1 n show ?thesis by blast
qed

section \<open>Claims about protocol identifiers\<close>

text \<open>
  C8. The identifiers under which \<open>getRawApiRequestHandlers\<close> files its handlers are
  fixed by the shard, the api name and the names of the exported methods: two calls on
  the same API type, shard and api name produce the same identifiers, whatever the API
  implementation, the codec builder and the protocol type of each call, and they are the
  values of \<open>protocolID\<close> at the exported methods.
\<close>

theorem protocolID_deterministic:
  assumes "getRawApiRequestHandlers nc P T api s a = Returns (Inr hs)"
    and "getRawApiRequestHandlers nc' P' T api' s a = Returns (Inr hs')"
  shows "fst ` set hs = fst ` set hs' \<and>
         fst ` set hs = (\<lambda>m. protocolID s a (Name m)) ` {m \<in> set T. isExportedMethod m}"
  using getRaw_keys [OF assms(1)] getRaw_keys [OF assms(2)] by simp

lemma ex_getRaw:
  "getRawApiRequestHandlers exNewApiCodec NetworkTransportProtocolRo exShardApiRo exApi 3 ''rawapi'' =
     Returns (Inr [(''/shard/3/rawapi/GetBalance'', makeRequestHandler (Some exMethod) exCodec)])"
  by (simp add: ex_defs)

lemma ex_getRaw2:
  "getRawApiRequestHandlers exNewApiCodec2 NetworkTransportProtocol exShardApiRo exApi2 3 ''rawapi'' =
     Returns (Inr [(''/shard/3/rawapi/GetBalance'',
        makeRequestHandler (Some (\<lambda>args. Returns [])) (exCodec\<lparr>packError := (\<lambda>err. [])\<rparr>))])"
  by (simp add: ex_defs exNewApiCodec2_def exApi2_def)

text \<open>
  The instance of C8 for the two example wirings.
\<close>

theorem protocolID_deterministic_witness:
  "getRawApiRequestHandlers exNewApiCodec NetworkTransportProtocolRo exShardApiRo exApi 3 ''rawapi'' =
     Returns (Inr [(''/shard/3/rawapi/GetBalance'', makeRequestHandler (Some exMethod) exCodec)]) \<and>
   getRawApiRequestHandlers exNewApiCodec2 NetworkTransportProtocol exShardApiRo exApi2 3 ''rawapi'' =
     Returns (Inr [(''/shard/3/rawapi/GetBalance'',
        makeRequestHandler (Some (\<lambda>args. Returns [])) (exCodec\<lparr>packError := (\<lambda>err. [])\<rparr>))]) \<and>
   fst ` set [(''/shard/3/rawapi/GetBalance'', makeRequestHandler (Some exMethod) exCodec)] =
     fst ` set [(''/shard/3/rawapi/GetBalance'',
        makeRequestHandler (Some (\<lambda>args. Returns [])) (exCodec\<lparr>packError := (\<lambda>err. [])\<rparr>))] \<and>
   fst ` set [(''/shard/3/rawapi/GetBalance'', makeRequestHandler (Some exMethod) exCodec)] =
     (\<lambda>m. protocolID 3 ''rawapi'' (Name m)) ` {m \<in> set exShardApiRo. isExportedMethod m}"
  using protocolID_deterministic [OF ex_getRaw ex_getRaw2] ex_getRaw ex_getRaw2
  by (intro conjI) blast+

section \<open>Claims about the capability flag\<close>

lemma SendTransaction_not_readonly:
  "''SendTransaction'' \<notin> Name ` set NetworkTransportProtocolRo"
  by (simp add: NetworkTransportProtocolRo_def pbMethod_def)

lemma SendTransaction_full:
  "Name ` set NetworkTransportProtocol =
     insert ''SendTransaction'' (Name ` set NetworkTransportProtocolRo)"
  by (simp add: NetworkTransportProtocol_def pbMethod_def)

text \<open>
  C3. With API types that mirror the protocol types: the read-only flag selects the
  read-only API and protocol types, and whatever the outcome, the handler table is
  unchanged at the identifier of \<open>SendTransaction\<close>; without the flag the full types are
  selected, and a successful registration installs a handler for every method of
  \<open>NetworkTransportProtocol\<close>, the read-only ones and \<open>SendTransaction\<close>.
\<close>

theorem capability_separation:
  assumes "mirrors ShardApiRo NetworkTransportProtocolRo"
    and "mirrors ShardApi NetworkTransportProtocol"
  shows "SetRawApiRequestHandlers nc ShardApiRo ShardApi ctx s api manager True logger =
           setRawApiRequestHandlers nc ctx NetworkTransportProtocolRo ShardApiRo api s ''rawapi''
             manager logger \<and>
         SetRawApiRequestHandlers nc ShardApiRo ShardApi ctx s api manager False logger =
           setRawApiRequestHandlers nc ctx NetworkTransportProtocol ShardApi api s ''rawapi''
             manager logger \<and>
         (\<forall>r manager' logger'.
            SetRawApiRequestHandlers nc ShardApiRo ShardApi ctx s api manager True logger =
              (r, manager', logger') \<longrightarrow>
            manager' (protocolID s ''rawapi'' ''SendTransaction'') =
              manager (protocolID s ''rawapi'' ''SendTransaction'')) \<and>
         (\<forall>manager' logger'.
            SetRawApiRequestHandlers nc ShardApiRo ShardApi ctx s api manager False logger =
              (Returns None, manager', logger') \<longrightarrow>
            (\<forall>m \<in> set NetworkTransportProtocol.
               \<exists>h. manager' (protocolID s ''rawapi'' (Name m)) = Some h))"
proof -
  have ro: "SetRawApiRequestHandlers nc ShardApiRo ShardApi ctx s api manager True logger =
              setRawApiRequestHandlers nc ctx NetworkTransportProtocolRo ShardApiRo api s ''rawapi''
                manager logger"
    and full: "SetRawApiRequestHandlers nc ShardApiRo ShardApi ctx s api manager False logger =
              setRawApiRequestHandlers nc ctx NetworkTransportProtocol ShardApi api s ''rawapi''
                manager logger"
    by (simp_all add: SetRawApiRequestHandlers_def)
  have 1: "manager' (protocolID s ''rawapi'' ''SendTransaction'') =
             manager (protocolID s ''rawapi'' ''SendTransaction'')"
    if run: "SetRawApiRequestHandlers nc ShardApiRo ShardApi ctx s api manager True logger =
               (r, manager', logger')" for r manager' logger'
  proof (cases "r = Returns None")
    case True
    with run ro have
      "setRawApiRequestHandlers nc ctx NetworkTransportProtocolRo ShardApiRo api s ''rawapi''
         manager logger = (Returns None, manager', logger')"
      by simp
    from setRaw_installed [OF this] have
      o: "\<forall>p. (\<forall>m \<in> set ShardApiRo. isExportedMethod m \<longrightarrow>
                   p \<noteq> protocolID s ''rawapi'' (Name m)) \<longrightarrow> manager' p = manager p"
      by blast
    have ne: "Name m \<noteq> ''SendTransaction''" if "m \<in> set ShardApiRo" "isExportedMethod m" for m
    proof -
      from that have "Name m \<in> Name ` set (Filter (iterMethods ShardApiRo) isExportedMethod)"
        by (simp add: Filter_def iterMethods_def)
      with assms(1) have "Name m \<in> Name ` set NetworkTransportProtocolRo"
        by (simp add: mirrors_def)
      with SendTransaction_not_readonly show ?thesis by auto
    qed
    have "\<forall>m \<in> set ShardApiRo. isExportedMethod m \<longrightarrow>
                 protocolID s ''rawapi'' ''SendTransaction'' \<noteq> protocolID s ''rawapi'' (Name m)"
      using ne by (metis protocolID_inject)
    with o show ?thesis by blast
  next
    case False
    with run ro have "manager' = manager"
      by (auto intro: setRaw_not_success)
    then show ?thesis by simp
  qed
  have 2: "\<exists>h. manager' (protocolID s ''rawapi'' (Name m)) = Some h"
    if run: "SetRawApiRequestHandlers nc ShardApiRo ShardApi ctx s api manager False logger =
               (Returns None, manager', logger')"
      and m: "m \<in> set NetworkTransportProtocol" for manager' logger' m
  proof -
    from m assms(2) have "Name m \<in> Name ` set (Filter (iterMethods ShardApi) isExportedMethod)"
      by (simp add: mirrors_def)
    then obtain m' where m': "m' \<in> set ShardApi" "isExportedMethod m'" "Name m' = Name m"
      by (auto simp: Filter_def iterMethods_def)
    from run full have
      "setRawApiRequestHandlers nc ctx NetworkTransportProtocol ShardApi api s ''rawapi''
         manager logger = (Returns None, manager', logger')"
      by simp
    from setRaw_installed [OF this] m'(1,2)
    have "\<exists>h. manager' (protocolID s ''rawapi'' (Name m')) = Some h"
      by blast
    with m'(3) show ?thesis by simp
  qed
  from ro full 1 2 show ?thesis by blast
qed

lemma node_mirrors:
  "mirrors nodeShardApiRo NetworkTransportProtocolRo"
  "mirrors nodeShardApi NetworkTransportProtocol"
  by (simp_all add: mirrors_def nodeShardApi_def nodeShardApiRo_def ex_defs)

lemma node_run_full:
  "fst (SetRawApiRequestHandlers exNewApiCodec nodeShardApiRo nodeShardApi 7 3 nodeApi Map.empty
          False []) = Returns None"
  by (simp add: SetRawApiRequestHandlers_def nodeApi_def nodeShardApi_def nodeShardApiRo_def ex_defs)


lemma node_members:
  "pbMethod ''GetBalance'' ''func(pb.AccountRequest) pb.BalanceResponse'' \<in>
     set NetworkTransportProtocol"
  "pbMethod ''SendTransaction'' ''func(pb.SendTransactionRequest) pb.SendTransactionResponse'' \<in>
     set NetworkTransportProtocol"
  by (simp_all add: NetworkTransportProtocol_def NetworkTransportProtocolRo_def)

text \<open>
  The instance of C3 in the mirrored wiring, on an empty handler table.
\<close>

theorem capability_separation_witness:
  "mirrors nodeShardApiRo NetworkTransportProtocolRo \<and>
   mirrors nodeShardApi NetworkTransportProtocol \<and>
   fst (SetRawApiRequestHandlers exNewApiCodec nodeShardApiRo nodeShardApi 7 3 nodeApi Map.empty
          False []) = Returns None \<and>
   fst (snd (SetRawApiRequestHandlers exNewApiCodec nodeShardApiRo nodeShardApi 7 3 nodeApi
               Map.empty True [])) ''/shard/3/rawapi/SendTransaction'' = None \<and>
   (\<exists>h. fst (snd (SetRawApiRequestHandlers exNewApiCodec nodeShardApiRo nodeShardApi 7 3 nodeApi
                    Map.empty False [])) ''/shard/3/rawapi/SendTransaction'' = Some h) \<and>
   (\<exists>h. fst (snd (SetRawApiRequestHandlers exNewApiCodec nodeShardApiRo nodeShardApi 7 3 nodeApi
                    Map.empty False [])) ''/shard/3/rawapi/GetBalance'' = Some h)"
proof -
  note c = capability_separation [OF node_mirrors, of exNewApiCodec 7 3 nodeApi Map.empty "[]"]
  obtain r manager' logger' where
    ro: "SetRawApiRequestHandlers exNewApiCodec nodeShardApiRo nodeShardApi 7 3 nodeApi Map.empty
           True [] = (r, manager', logger')"
    by (cases "SetRawApiRequestHandlers exNewApiCodec nodeShardApiRo nodeShardApi 7 3 nodeApi
                 Map.empty True []")
  obtain manager'' logger'' where
    full: "SetRawApiRequestHandlers exNewApiCodec nodeShardApiRo nodeShardApi 7 3 nodeApi
             Map.empty False [] = (Returns None, manager'', logger'')"
    using node_run_full
    by (cases "SetRawApiRequestHandlers exNewApiCodec nodeShardApiRo nodeShardApi 7 3 nodeApi
                 Map.empty False []") auto
  have p: "protocolID 3 ''rawapi'' ''SendTransaction'' = ''/shard/3/rawapi/SendTransaction''"
    "protocolID 3 ''rawapi'' ''GetBalance'' = ''/shard/3/rawapi/GetBalance''"
    by (simp_all add: protocolID_def decimal.simps digit_def)
  from c ro have "manager' (protocolID 3 ''rawapi'' ''SendTransaction'') =
                    Map.empty (protocolID 3 ''rawapi'' ''SendTransaction'')"
    by blast
  then have 1: "manager' ''/shard/3/rawapi/SendTransaction'' = None"
    by (simp add: p)
  from c full have
    a: "\<forall>m \<in> set NetworkTransportProtocol.
          \<exists>h. manager'' (protocolID 3 ''rawapi'' (Name m)) = Some h"
    by blast
  from a node_members(2) have 2: "\<exists>h. manager'' ''/shard/3/rawapi/SendTransaction'' = Some h"
    by (force simp: pbMethod_def p)
  from a node_members(1) have 3: "\<exists>h. manager'' ''/shard/3/rawapi/GetBalance'' = Some h"
    by (force simp: pbMethod_def p)
  from node_mirrors node_run_full 1 2 3 ro full show ?thesis by simp
qed

end
